theory Spec2Isabelle
  imports Main "HOL-Library.Sublist"
begin

section \<open>Data model\<close>

text \<open>
  The program is \<^verbatim>\<open>src/app.py\<close>. Its two export functions, \<^verbatim>\<open>create_pdf\<close> and
  \<^verbatim>\<open>create_excel_with_chart\<close>, take a pandas DataFrame. A cell is a number or a
  string. Numbers are integers here: the order and the equality of the amounts are all the
  renderers use, so fractional amounts and NaN are left out of the model.
\<close>

datatype cell = Num int | Str string

text \<open>
  The dtype pandas gives a column: a numeric one (\<^verbatim>\<open>int64\<close>, \<^verbatim>\<open>float64\<close>) or
  \<^verbatim>\<open>object\<close>. \<^verbatim>\<open>pd.read_sql\<close> infers it from the rows it reads; a result without
  rows gives it nothing to infer from, and every column is \<^verbatim>\<open>object\<close> then.
\<close>

datatype dtype = Numeric | Object

text \<open>
  A DataFrame: the column names in order, the dtype of each column, and the rows
  (\<^verbatim>\<open>df.values.tolist()\<close>). pandas keeps one dtype for each column, every row as long
  as the list of columns, and only numbers in a numeric column; \<open>wf_df\<close> states it,
  together with the column names being distinct (\<^verbatim>\<open>get_loc\<close> returns a position only
  then).
\<close>

record dataframe =
  df_columns :: "string list"
  df_dtypes :: "dtype list"
  df_values :: "cell list list"

fun is_num :: "cell \<Rightarrow> bool" where
  "is_num (Num n) = True"
| "is_num (Str s) = False"

definition fits :: "dtype list \<Rightarrow> cell list \<Rightarrow> bool" where
  "fits ts r \<longleftrightarrow> length r = length ts \<and> list_all2 (\<lambda>t c. t = Object \<or> is_num c) ts r"

definition wf_df :: "dataframe \<Rightarrow> bool" where
  "wf_df df \<longleftrightarrow>
     distinct (df_columns df) \<and>
     length (df_dtypes df) = length (df_columns df) \<and>
     list_all (fits (df_dtypes df)) (df_values df)"

text \<open>
  The exceptions of the Python code. \<open>KeyError\<close>, \<open>NameError\<close>, \<open>TypeError\<close>,
  \<open>IndexError\<close> and \<open>OSError\<close> are the ones the interpreter and the libraries raise.
  \<open>ConfigurationError\<close> and \<open>SchemaError\<close> are the error kinds the specification names:
  the source defines no exception class of its own and no function below returns them.
\<close>

datatype error =
    KeyError string
  | NameError string
  | TypeError
  | IndexError
  | OSError
  | ConfigurationError
  | SchemaError

subsection \<open>Column lookup\<close>

text \<open>\<^verbatim>\<open>df.columns.get_loc(name)\<close>: the position of the column, or \<open>KeyError\<close>.\<close>

fun index_of :: "string \<Rightarrow> string list \<Rightarrow> nat" where
  "index_of x [] = 0"
| "index_of x (y # ys) = (if x = y then 0 else Suc (index_of x ys))"

definition get_loc :: "dataframe \<Rightarrow> string \<Rightarrow> error + nat" where
  "get_loc df name =
     (if name \<in> set (df_columns df) then Inr (index_of name (df_columns df))
      else Inl (KeyError name))"

text \<open>\<^verbatim>\<open>df[name]\<close>: the column as a Series, its dtype and its values, or
  \<open>KeyError\<close>.\<close>

type_synonym pd_series = "dtype \<times> cell list"

definition dtype_of :: "dataframe \<Rightarrow> string \<Rightarrow> dtype" where
  "dtype_of df name =
     (if index_of name (df_columns df) < length (df_dtypes df)
      then df_dtypes df ! index_of name (df_columns df) else Object)"

definition getitem :: "dataframe \<Rightarrow> string \<Rightarrow> error + pd_series" where
  "getitem df name =
     (if name \<in> set (df_columns df)
      then Inr (dtype_of df name,
                map (\<lambda>r. r ! index_of name (df_columns df)) (df_values df))
      else Inl (KeyError name))"

text \<open>\<^verbatim>\<open>df.iloc[:, -1]\<close>: the values of the last column; no column at all is an
  \<open>IndexError\<close>.\<close>

definition iloc_last :: "dataframe \<Rightarrow> error + cell list" where
  "iloc_last df =
     (if df_columns df = [] then Inl IndexError
      else Inr (map (\<lambda>r. r ! (length (df_columns df) - 1)) (df_values df)))"

subsection \<open>The three largest values\<close>

text \<open>
  \<^verbatim>\<open>Series.nlargest(3).tolist()\<close>: pandas looks at the dtype first and refuses a column
  that is not numeric, also one without entries (\<open>TypeError\<close>: cannot use method
  \<^verbatim>\<open>nlargest\<close> with dtype object); otherwise the result is the three largest entries,
  with repetitions, largest first (all of them when the column has fewer than three).
\<close>

fun num_values :: "cell list \<Rightarrow> error + int list" where
  "num_values [] = Inr []"
| "num_values (Num n # cs) = (case num_values cs of Inl e \<Rightarrow> Inl e | Inr ns \<Rightarrow> Inr (n # ns))"
| "num_values (Str s # cs) = Inl TypeError"

definition nlargest :: "nat \<Rightarrow> pd_series \<Rightarrow> error + cell list" where
  "nlargest n s =
     (if fst s = Object then Inl TypeError
      else (case num_values (snd s) of
              Inl e \<Rightarrow> Inl e
            | Inr ns \<Rightarrow> Inr (map Num (take n (rev (sort ns))))))"

text \<open>
  Lines 56 and 80, the same expression in both renderers:
  \<^verbatim>\<open>df['total_amount'].nlargest(3).tolist() if 'total_amount' in df.columns
    else df['amount'].nlargest(3).tolist()\<close>
\<close>

definition top_amounts :: "dataframe \<Rightarrow> error + cell list" where
  "top_amounts df =
     (if ''total_amount'' \<in> set (df_columns df)
      then (case getitem df ''total_amount'' of Inl e \<Rightarrow> Inl e | Inr c \<Rightarrow> nlargest 3 c)
      else (case getitem df ''amount'' of Inl e \<Rightarrow> Inl e | Inr c \<Rightarrow> nlargest 3 c))"

section \<open>The spreadsheet renderer\<close>

text \<open>
  The workbook \<^verbatim>\<open>create_excel_with_chart\<close> writes: one sheet with the header row and the
  data rows (\<^verbatim>\<open>df.to_excel(writer, index=False, sheet_name="Report")\<close>), the row formats
  set by \<^verbatim>\<open>worksheet.set_row\<close> in call order, and the charts inserted.
\<close>

record cell_format =
  bg_color :: string
  font_color :: string

record series =
  series_name :: string
  categories :: "string \<times> nat \<times> nat \<times> nat \<times> nat"
  series_values :: "string \<times> nat \<times> nat \<times> nat \<times> nat"
  fill_color :: string

record chart =
  chart_type :: string
  chart_series :: "series list"
  chart_title :: string
  x_axis_name :: string
  y_axis_name :: string

record workbook =
  sheet_name :: string
  sheet_rows :: "cell list list"
  row_formats :: "(nat \<times> cell_format) list"
  charts :: "(string \<times> chart) list"

definition format_top :: cell_format where
  "format_top = \<lparr>bg_color = ''#FFD700'', font_color = ''black''\<rparr>"

text \<open>
  Lines 82 to 84: \<^verbatim>\<open>for i, val in enumerate(df.iloc[:, -1]): if val in top_amounts:
  worksheet.set_row(i+1, None, format_top)\<close>. The first argument counts the position
  \<open>i\<close>.
\<close>

fun excel_highlight :: "cell list \<Rightarrow> nat \<Rightarrow> cell list \<Rightarrow> (nat \<times> cell_format) list" where
  "excel_highlight tops i [] = []"
| "excel_highlight tops i (val # vals) =
     (if val \<in> set tops then [(i + 1, format_top)] else []) @ excel_highlight tops (Suc i) vals"

text \<open>Lines 87 and 88, the columns of the chart's values and of its categories.\<close>

definition col_amount :: "dataframe \<Rightarrow> error + nat" where
  "col_amount df =
     (if ''total_amount'' \<in> set (df_columns df)
      then (case get_loc df ''total_amount'' of Inl e \<Rightarrow> Inl e | Inr k \<Rightarrow> Inr (k + 1))
      else (case get_loc df ''amount'' of Inl e \<Rightarrow> Inl e | Inr k \<Rightarrow> Inr (k + 1)))"

definition col_name :: "dataframe \<Rightarrow> error + nat" where
  "col_name df =
     (if ''category'' \<in> set (df_columns df)
      then (case get_loc df ''category'' of Inl e \<Rightarrow> Inl e | Inr k \<Rightarrow> Inr (k + 1))
      else (case get_loc df ''product_name'' of Inl e \<Rightarrow> Inl e | Inr k \<Rightarrow> Inr (k + 1)))"

definition sales_chart :: "dataframe \<Rightarrow> nat \<Rightarrow> nat \<Rightarrow> chart" where
  "sales_chart df cn ca =
     \<lparr>chart_type = ''column'',
      chart_series =
        [\<lparr>series_name = ''Sales Amount'',
          categories = (''Report'', 1, cn - 1, length (df_values df), cn - 1),
          series_values = (''Report'', 1, ca - 1, length (df_values df), ca - 1),
          fill_color = ''#4F81BD''\<rparr>],
      chart_title = ''Sales Chart'',
      x_axis_name = ''Category/Product'',
      y_axis_name = ''Amount''\<rparr>"

text \<open>
  \<^verbatim>\<open>create_excel_with_chart(df)\<close>, lines 73 to 100. An exception inside the
  \<^verbatim>\<open>with\<close> block leaves the function; nothing is returned then.
\<close>

definition create_excel_with_chart :: "dataframe \<Rightarrow> error + workbook" where
  "create_excel_with_chart df =
     (case top_amounts df of
        Inl e \<Rightarrow> Inl e
      | Inr tops \<Rightarrow>
     (case iloc_last df of
        Inl e \<Rightarrow> Inl e
      | Inr vals \<Rightarrow>
     (case col_amount df of
        Inl e \<Rightarrow> Inl e
      | Inr ca \<Rightarrow>
     (case col_name df of
        Inl e \<Rightarrow> Inl e
      | Inr cn \<Rightarrow>
          Inr \<lparr>sheet_name = ''Report'',
               sheet_rows = map Str (df_columns df) # df_values df,
               row_formats = excel_highlight tops 0 vals,
               charts = [(''H2'', sales_chart df cn ca)]\<rparr>))))"

section \<open>The document renderer\<close>

text \<open>
  The figure that matplotlib holds when \<^verbatim>\<open>plt.savefig\<close> is called: the plot drawn
  into it, if any, and its labels. \<open>Bar x height\<close> is \<^verbatim>\<open>plt.bar(x, height)\<close>,
  \<open>Pie x labels\<close> is \<^verbatim>\<open>plt.pie(x, labels=labels)\<close>; both are given the values of
  the Series. The plotting calls are taken to accept the data they are given.
\<close>

datatype plot = Bar "cell list" "cell list" | Pie "cell list" "cell list"

record figure =
  fig_plot :: "plot option"
  fig_ylabel :: string
  fig_title :: string

text \<open>Lines 32 to 38, the body of the chart block between \<^verbatim>\<open>plt.figure\<close> and
  \<^verbatim>\<open>plt.tight_layout\<close>.\<close>

definition draw_chart :: "dataframe \<Rightarrow> error + figure" where
  "draw_chart df =
     (if ''product_name'' \<in> set (df_columns df) then
        (case getitem df ''product_name'' of
           Inl e \<Rightarrow> Inl e
         | Inr xs \<Rightarrow>
        (case (if ''amount'' \<in> set (df_columns df) then getitem df ''amount''
               else getitem df ''total_amount'') of
           Inl e \<Rightarrow> Inl e
         | Inr hs \<Rightarrow>
             Inr \<lparr>fig_plot = Some (Bar (snd xs) (snd hs)), fig_ylabel = ''Amount'',
                  fig_title = ''Sales by Product''\<rparr>))
      else if ''category'' \<in> set (df_columns df) then
        (case getitem df ''total_amount'' of
           Inl e \<Rightarrow> Inl e
         | Inr vs \<Rightarrow>
        (case getitem df ''category'' of
           Inl e \<Rightarrow> Inl e
         | Inr ls \<Rightarrow>
             Inr \<lparr>fig_plot = Some (Pie (snd vs) (snd ls)), fig_ylabel = [],
                  fig_title = ''Sales by Category''\<rparr>))
      else Inr \<lparr>fig_plot = None, fig_ylabel = [], fig_title = []\<rparr>)"

text \<open>
  The reportlab table: its data, \<^verbatim>\<open>repeatRows\<close>, and the style commands in the order
  \<^verbatim>\<open>setStyle\<close> received them. A command names a block of cells by its corners
  \<open>(column, row)\<close>; a negative coordinate counts from the end.
\<close>

datatype color = HexColor string | Whitesmoke | Grey

datatype style_cmd =
    BACKGROUND "int \<times> int" "int \<times> int" color
  | TEXTCOLOR "int \<times> int" "int \<times> int" color
  | ALIGN "int \<times> int" "int \<times> int" string
  | FONTNAME "int \<times> int" "int \<times> int" string
  | GRID "int \<times> int" "int \<times> int" color

record pdf_table =
  table_data :: "cell list list"
  repeat_rows :: nat
  table_style :: "style_cmd list"

text \<open>The flowables of the document. An image is named by its file while the document is
  put together, and holds the file's figure once the document is built.\<close>

datatype 'img flowable =
    Paragraph string string
  | Spacer nat nat
  | Image 'img nat nat
  | TableFlowable pdf_table

datatype stored_file = PngFile figure | PdfFile "figure flowable list"

type_synonym filesystem = "string \<Rightarrow> stored_file option"

text \<open>The style set at lines 47 to 54.\<close>

definition header_style :: "style_cmd list" where
  "header_style =
     [BACKGROUND (0, 0) (-1, 0) (HexColor ''#4F81BD''),
      TEXTCOLOR (0, 0) (-1, 0) Whitesmoke,
      ALIGN (0, 0) (-1, -1) ''CENTER'',
      FONTNAME (0, 0) (-1, 0) ''Helvetica-Bold'',
      GRID (0, 0) (-1, -1) Grey]"

text \<open>Python's \<^verbatim>\<open>row[k]\<close> on a list.\<close>

definition list_get :: "'a list \<Rightarrow> nat \<Rightarrow> error + 'a" where
  "list_get xs k = (if k < length xs then Inr (xs ! k) else Inl IndexError)"

text \<open>Line 58, evaluated for each row:
  \<^verbatim>\<open>row[df.columns.get_loc('total_amount') if 'total_amount' in df.columns
    else df.columns.get_loc('amount')]\<close>\<close>

definition row_value :: "dataframe \<Rightarrow> cell list \<Rightarrow> error + cell" where
  "row_value df row =
     (case (if ''total_amount'' \<in> set (df_columns df) then get_loc df ''total_amount''
            else get_loc df ''amount'') of
        Inl e \<Rightarrow> Inl e
      | Inr k \<Rightarrow> list_get row k)"

text \<open>Line 59.\<close>

definition bg_color_of :: "cell list \<Rightarrow> nat \<Rightarrow> cell \<Rightarrow> color" where
  "bg_color_of tops i v =
     (if v \<in> set tops then HexColor ''#FFD700''
      else if i mod 2 = 0 then HexColor ''#DCE6F1'' else Whitesmoke)"

text \<open>The loop of lines 57 to 60, \<open>i\<close> starting at 1: the commands it adds to the
  table's style.\<close>

fun pdf_row_styles :: "dataframe \<Rightarrow> cell list \<Rightarrow> nat \<Rightarrow> cell list list \<Rightarrow> error + style_cmd list" where
  "pdf_row_styles df tops i [] = Inr []"
| "pdf_row_styles df tops i (row # rows) =
     (case row_value df row of
        Inl e \<Rightarrow> Inl e
      | Inr v \<Rightarrow>
     (case pdf_row_styles df tops (Suc i) rows of
        Inl e \<Rightarrow> Inl e
      | Inr cmds \<Rightarrow>
          Inr (BACKGROUND (0, int i) (-1, int i) (bg_color_of tops i v) # cmds)))"

text \<open>
  \<^verbatim>\<open>doc.build(elements)\<close>: every image file is read and the document is written to
  \<^verbatim>\<open>sales_report.pdf\<close>. Writing can fail for reasons outside the program (the file is
  not writable); \<open>writable\<close> says whether it succeeds.
\<close>

fun load_images :: "filesystem \<Rightarrow> string flowable list \<Rightarrow> error + figure flowable list" where
  "load_images fs [] = Inr []"
| "load_images fs (Image f w h # es) =
     (case fs f of
        Some (PngFile fig) \<Rightarrow>
          (case load_images fs es of Inl e \<Rightarrow> Inl e | Inr ds \<Rightarrow> Inr (Image fig w h # ds))
      | _ \<Rightarrow> Inl OSError)"
| "load_images fs (Paragraph t s # es) =
     (case load_images fs es of Inl e \<Rightarrow> Inl e | Inr ds \<Rightarrow> Inr (Paragraph t s # ds))"
| "load_images fs (Spacer w h # es) =
     (case load_images fs es of Inl e \<Rightarrow> Inl e | Inr ds \<Rightarrow> Inr (Spacer w h # ds))"
| "load_images fs (TableFlowable t # es) =
     (case load_images fs es of Inl e \<Rightarrow> Inl e | Inr ds \<Rightarrow> Inr (TableFlowable t # ds))"

definition doc_build :: "bool \<Rightarrow> string \<Rightarrow> string flowable list \<Rightarrow> filesystem \<Rightarrow> error + filesystem" where
  "doc_build writable pdf_file elements fs =
     (case load_images fs elements of
        Inl e \<Rightarrow> Inl e
      | Inr ds \<Rightarrow> if writable then Inr (fs(pdf_file \<mapsto> PdfFile ds)) else Inl OSError)"

text \<open>
  \<^verbatim>\<open>create_pdf(df, report_title)\<close>, lines 19 to 68, on a file system: the result is the
  value returned or the exception raised, and the file system the call leaves behind.
\<close>

definition title_block :: "string \<Rightarrow> string flowable list" where
  "title_block report_title =
     [Paragraph report_title ''Title'',
      Paragraph ''Generated using Streamlit & Python'' ''Normal'',
      Spacer 1 12]"

definition pdf_tail :: "bool \<Rightarrow> dataframe \<Rightarrow> string flowable list \<Rightarrow> filesystem \<Rightarrow> (error + string) \<times> filesystem" where
  "pdf_tail writable df elements fs =
     (case top_amounts df of
        Inl e \<Rightarrow> (Inl e, fs)
      | Inr tops \<Rightarrow>
     (case pdf_row_styles df tops 1 (df_values df) of
        Inl e \<Rightarrow> (Inl e, fs)
      | Inr cmds \<Rightarrow>
     (case doc_build writable ''sales_report.pdf''
             (elements @
              [TableFlowable
                 \<lparr>table_data = map Str (df_columns df) # df_values df,
                  repeat_rows = 1,
                  table_style = header_style @ cmds\<rparr>]) fs of
        Inl e \<Rightarrow> (Inl e, fs)
      | Inr fs' \<Rightarrow>
          (Inr ''sales_report.pdf'',
           if fs' ''chart.png'' \<noteq> None then fs'(''chart.png'' := None) else fs'))))"

definition create_pdf :: "bool \<Rightarrow> dataframe \<Rightarrow> string \<Rightarrow> filesystem \<Rightarrow> (error + string) \<times> filesystem" where
  "create_pdf writable df report_title fs =
     (if ''amount'' \<in> set (df_columns df) \<or> ''total_amount'' \<in> set (df_columns df) then
        (case draw_chart df of
           Inl e \<Rightarrow> (Inl e, fs)
         | Inr fig \<Rightarrow>
             pdf_tail writable df
               (title_block report_title @ [Image ''chart.png'' 400 200, Spacer 1 12])
               (fs(''chart.png'' \<mapsto> PngFile fig)))
      else pdf_tail writable df (title_block report_title) fs)"

section \<open>The query\<close>

text \<open>
  Lines 148 to 152. The dates are given as the text Python prints for them; a list is true
  in a condition when it is not empty.
\<close>

fun join :: "string \<Rightarrow> string list \<Rightarrow> string" where
  "join sep [] = []"
| "join sep [x] = x"
| "join sep (x # y # ys) = x @ sep @ join sep (y # ys)"

definition quoted :: "string \<Rightarrow> string" where
  "quoted p = [CHR 0x27] @ p @ [CHR 0x27]"

definition base_condition :: "string \<Rightarrow> string \<Rightarrow> string list \<Rightarrow> string list \<Rightarrow> string" where
  "base_condition start_date end_date selected_products selected_categories =
     (''sale_date BETWEEN '' @ quoted start_date @ '' AND '' @ quoted end_date)
     @ (if selected_products \<noteq> []
        then '' AND product_name IN ('' @ join '','' (map quoted selected_products) @ '')''
        else [])
     @ (if selected_categories \<noteq> []
        then '' AND category IN ('' @ join '','' (map quoted selected_categories) @ '')''
        else [])"

text \<open>
  Lines 154 to 177. The chain of \<^verbatim>\<open>if\<close> and \<^verbatim>\<open>elif\<close> has no \<^verbatim>\<open>else\<close>: the
  result is the text bound to \<^verbatim>\<open>query\<close>, or \<open>None\<close> when no branch was taken and the
  name is left unbound.
\<close>

definition build_query :: "string \<Rightarrow> string \<Rightarrow> string option" where
  "build_query cond query_option =
     (if query_option = ''All Sales Data'' then
        Some (''SELECT *, quantity*unit_price AS amount FROM sales WHERE '' @ cond)
      else if query_option = ''Sales by Product'' then
        Some (''\<newline>        SELECT product_name, SUM(quantity) AS total_qty, SUM(quantity*unit_price) AS total_amount''
              @ ''\<newline>        FROM sales''
              @ ''\<newline>        WHERE '' @ cond
              @ ''\<newline>        GROUP BY product_name''
              @ ''\<newline>    '')
      else if query_option = ''Daily Sales Summary'' then
        Some (''\<newline>        SELECT sale_date, SUM(quantity) AS total_qty, SUM(quantity*unit_price) AS total_amount''
              @ ''\<newline>        FROM sales''
              @ ''\<newline>        WHERE '' @ cond
              @ ''\<newline>        GROUP BY sale_date''
              @ ''\<newline>        ORDER BY sale_date''
              @ ''\<newline>    '')
      else if query_option = ''Sales by Category'' then
        Some (''\<newline>        SELECT category, SUM(quantity) AS total_qty, SUM(quantity*unit_price) AS total_amount''
              @ ''\<newline>        FROM sales''
              @ ''\<newline>        WHERE '' @ cond
              @ ''\<newline>        GROUP BY category''
              @ ''\<newline>    '')
      else None)"

text \<open>Line 179, \<^verbatim>\<open>df = fetch_data(query)\<close>: the text handed to \<^verbatim>\<open>fetch_data\<close>.
  Reading a name that is not bound raises \<open>NameError\<close>.\<close>

definition query_for_fetch :: "string \<Rightarrow> string \<Rightarrow> error + string" where
  "query_for_fetch cond query_option =
     (case build_query cond query_option of
        None \<Rightarrow> Inl (NameError ''query'')
      | Some q \<Rightarrow> Inr q)"

section \<open>Reading the artifacts\<close>

text \<open>
  What a reader of the finished document sees. In reportlab a later style command
  overrides an earlier one on the cells both name; \<open>cell_background\<close> runs through the
  commands in order and keeps the last background given to the cell at column \<open>c\<close> and
  row \<open>r\<close> of a table with \<open>ncols\<close> columns and \<open>nrows\<close> rows.
\<close>

definition resolve :: "nat \<Rightarrow> int \<Rightarrow> int" where
  "resolve n k = (if k < 0 then int n + k else k)"

definition covers :: "nat \<Rightarrow> nat \<Rightarrow> int \<times> int \<Rightarrow> int \<times> int \<Rightarrow> nat \<Rightarrow> nat \<Rightarrow> bool" where
  "covers ncols nrows start stop c r \<longleftrightarrow>
     resolve ncols (fst start) \<le> int c \<and> int c \<le> resolve ncols (fst stop) \<and>
     resolve nrows (snd start) \<le> int r \<and> int r \<le> resolve nrows (snd stop)"

fun cell_background :: "nat \<Rightarrow> nat \<Rightarrow> style_cmd list \<Rightarrow> nat \<Rightarrow> nat \<Rightarrow> color option \<Rightarrow> color option" where
  "cell_background ncols nrows [] c r acc = acc"
| "cell_background ncols nrows (BACKGROUND start stop col # cmds) c r acc =
     cell_background ncols nrows cmds c r
       (if covers ncols nrows start stop c r then Some col else acc)"
| "cell_background ncols nrows (cmd # cmds) c r acc = cell_background ncols nrows cmds c r acc"

text \<open>The background of a row of the table, read at its first cell (every background
  command of the renderer spans all the columns).\<close>

definition row_background :: "pdf_table \<Rightarrow> nat \<Rightarrow> color option" where
  "row_background t r =
     (case table_data t of
        [] \<Rightarrow> None
      | header # rest \<Rightarrow>
          cell_background (length header) (length (table_data t)) (table_style t) 0 r None)"

fun tables_of :: "'img flowable list \<Rightarrow> pdf_table list" where
  "tables_of [] = []"
| "tables_of (TableFlowable t # es) = t # tables_of es"
| "tables_of (e # es) = tables_of es"

fun images_of :: "'img flowable list \<Rightarrow> 'img list" where
  "images_of [] = []"
| "images_of (Image g w h # es) = g # images_of es"
| "images_of (e # es) = images_of es"

text \<open>The document a call of \<open>create_pdf\<close> has written, when it returned.\<close>

definition rendered :: "(error + string) \<times> filesystem \<Rightarrow> figure flowable list option" where
  "rendered res =
     (case fst res of
        Inl e \<Rightarrow> None
      | Inr name \<Rightarrow>
          (case snd res name of Some (PdfFile ds) \<Rightarrow> Some ds | _ \<Rightarrow> None))"




text \<open>
  The amount column as the specification resolves it, \<^verbatim>\<open>total_amount\<close> before
  \<^verbatim>\<open>amount\<close>, and the amount of the data row at position \<open>i\<close> (from 0).
\<close>

definition amount_column :: "dataframe \<Rightarrow> string" where
  "amount_column df =
     (if ''total_amount'' \<in> set (df_columns df) then ''total_amount'' else ''amount'')"

definition amount_of_row :: "dataframe \<Rightarrow> nat \<Rightarrow> cell" where
  "amount_of_row df i = df_values df ! i ! index_of (amount_column df) (df_columns df)"

definition rendered_table :: "(error + string) \<times> filesystem \<Rightarrow> pdf_table option" where
  "rendered_table res =
     (case rendered res of
        None \<Rightarrow> None
      | Some ds \<Rightarrow> (case tables_of ds of [t] \<Rightarrow> Some t | _ \<Rightarrow> None))"

definition rendered_row_background :: "(error + string) \<times> filesystem \<Rightarrow> nat \<Rightarrow> color option" where
  "rendered_row_background res r =
     (case rendered_table res of None \<Rightarrow> None | Some t \<Rightarrow> row_background t r)"




text \<open>The report types the sidebar offers (line 135); the selector is one of them.\<close>

definition known_options :: "string list" where
  "known_options = [''All Sales Data'', ''Sales by Product'', ''Daily Sales Summary'',
                    ''Sales by Category'']"

text \<open>
  The columns of the table each query returns (lines 155, 158, 165, 173), given the
  columns of \<^verbatim>\<open>sales\<close> for \<^verbatim>\<open>SELECT *\<close>. The amount-like column comes last in
  all four. \<open>amount_last\<close> says so of a table: its last column is the resolved amount
  column.
\<close>

definition result_columns :: "string list \<Rightarrow> string \<Rightarrow> string list option" where
  "result_columns sales_columns query_option =
     (if query_option = ''All Sales Data'' then Some (sales_columns @ [''amount''])
      else if query_option = ''Sales by Product'' then
        Some [''product_name'', ''total_qty'', ''total_amount'']
      else if query_option = ''Daily Sales Summary'' then
        Some [''sale_date'', ''total_qty'', ''total_amount'']
      else if query_option = ''Sales by Category'' then
        Some [''category'', ''total_qty'', ''total_amount'']
      else None)"

definition amount_last :: "dataframe \<Rightarrow> bool" where
  "amount_last df \<longleftrightarrow> df_columns df \<noteq> [] \<and> last (df_columns df) = amount_column df"





section \<open>Example tables\<close>

text \<open>A table of the shape \<^verbatim>\<open>Sales by Product\<close> returns, with the amounts
  10, 10, 10, 5, 1.\<close>

definition df5 :: dataframe where
  "df5 = \<lparr>df_columns = [''product_name'', ''total_amount''],
          df_dtypes = [Object, Numeric],
          df_values = [[Str ''A'', Num 10], [Str ''B'', Num 10], [Str ''C'', Num 10],
                       [Str ''D'', Num 5], [Str ''E'', Num 1]]\<rparr>"

text \<open>A table of the shape \<^verbatim>\<open>Daily Sales Summary\<close> returns: neither
  \<^verbatim>\<open>product_name\<close> nor \<^verbatim>\<open>category\<close>.\<close>

definition df_daily :: dataframe where
  "df_daily = \<lparr>df_columns = [''sale_date'', ''total_qty'', ''total_amount''],
          df_dtypes = [Object, Numeric, Numeric],
          df_values = [[Str ''2024-01-01'', Num 3, Num 30], [Str ''2024-01-02'', Num 1, Num 10]]\<rparr>"

text \<open>What \<^verbatim>\<open>Sales by Product\<close> returns when no sale matches the filter: no rows, and
  every column of dtype \<^verbatim>\<open>object\<close>.\<close>

definition df_empty :: dataframe where
  "df_empty = \<lparr>df_columns = [''product_name'', ''total_qty'', ''total_amount''],
          df_dtypes = [Object, Object, Object],
          df_values = []\<rparr>"




section \<open>Lemmas on the table style\<close>

lemma cell_background_append:
  "cell_background nc nr (xs @ ys) c r acc = cell_background nc nr ys c r (cell_background nc nr xs c r acc)"
  by (induction nc nr xs c r acc rule: cell_background.induct) auto

lemma covers_row: "0 < nc \<Longrightarrow> covers nc nr (0, int i) (-1, int i) 0 r \<longleftrightarrow> r = i"
  by (auto simp: covers_def resolve_def)

lemma pdf_row_styles_background:
  "pdf_row_styles df tops s rows = Inr cmds \<Longrightarrow> 0 < nc \<Longrightarrow>
   cell_background nc nr cmds 0 r acc =
     (if s \<le> r \<and> r < s + length rows
      then (case row_value df (rows ! (r - s)) of Inr v \<Rightarrow> Some (bg_color_of tops r v) | Inl e \<Rightarrow> None)
      else acc)"
proof (induction rows arbitrary: s cmds acc)
  case Nil
  then show ?case by auto
next
  case (Cons row rows)
  then show ?case
    by (auto simp: covers_row nth_Cons' Suc_diff_le split: sum.splits)
qed

lemma header_style_background: "0 < r \<Longrightarrow> cell_background nc nr header_style 0 r None = None"
  by (simp add: header_style_def covers_def resolve_def)

section \<open>Lemmas on building the document\<close>

lemma load_images_append:
  "load_images fs (xs @ ys) =
     (case load_images fs xs of Inl e \<Rightarrow> Inl e
      | Inr ds \<Rightarrow> (case load_images fs ys of Inl e \<Rightarrow> Inl e | Inr es \<Rightarrow> Inr (ds @ es)))"
  by (induction fs xs rule: load_images.induct) (auto split: sum.splits option.splits stored_file.splits)

lemma load_images_tables:
  "load_images fs xs = Inr ds \<Longrightarrow> tables_of ds = tables_of xs"
  by (induction fs xs arbitrary: ds rule: load_images.induct) (auto split: sum.splits option.splits stored_file.splits)


lemma tables_of_append: "tables_of (xs @ ys) = tables_of xs @ tables_of ys"
  by (induction xs rule: tables_of.induct) auto

lemma images_of_append: "images_of (xs @ ys) = images_of xs @ images_of ys"
  by (induction xs rule: images_of.induct) auto

lemma remove_if_exists: "(if f k \<noteq> None then f(k := None) else f) = f(k := None)"
  by auto

lemma pdf_tail_Inr:
  assumes "pdf_tail w df els fs = (Inr name, fs')"
  obtains tops cmds ds where
    "top_amounts df = Inr tops"
    "pdf_row_styles df tops 1 (df_values df) = Inr cmds"
    "load_images fs els = Inr ds"
    "w" "name = ''sales_report.pdf''"
    "fs' = (fs(''sales_report.pdf'' \<mapsto>
              PdfFile (ds @ [TableFlowable
                 \<lparr>table_data = map Str (df_columns df) # df_values df,
                  repeat_rows = 1,
                  table_style = header_style @ cmds\<rparr>])))(''chart.png'' := None)"
  using assms
  unfolding pdf_tail_def doc_build_def remove_if_exists
  by (auto simp: load_images_append split: sum.splits if_splits)

lemma create_pdf_Inr:
  assumes "create_pdf w df title fs = (Inr name, fs')"
  obtains tops cmds ds where
    "top_amounts df = Inr tops"
    "pdf_row_styles df tops 1 (df_values df) = Inr cmds"
    "tables_of ds = []"
    "rendered (create_pdf w df title fs) =
       Some (ds @ [TableFlowable
                 \<lparr>table_data = map Str (df_columns df) # df_values df,
                  repeat_rows = 1,
                  table_style = header_style @ cmds\<rparr>])"
proof (cases "''amount'' \<in> set (df_columns df) \<or> ''total_amount'' \<in> set (df_columns df)")
  case True
  then obtain fig where fig: "draw_chart df = Inr fig"
    and tail: "pdf_tail w df (title_block title @ [Image ''chart.png'' 400 200, Spacer 1 12])
                 (fs(''chart.png'' \<mapsto> PngFile fig)) = (Inr name, fs')"
    using assms by (auto simp: create_pdf_def split: sum.splits)
  from tail show ?thesis
  proof (rule pdf_tail_Inr)
    fix tops cmds ds
    assume a: "top_amounts df = Inr tops" "pdf_row_styles df tops 1 (df_values df) = Inr cmds"
      "load_images (fs(''chart.png'' \<mapsto> PngFile fig))
         (title_block title @ [Image ''chart.png'' 400 200, Spacer 1 12]) = Inr ds"
      "name = ''sales_report.pdf''"
      "fs' = (fs(''chart.png'' \<mapsto> PngFile fig, ''sales_report.pdf'' \<mapsto>
              PdfFile (ds @ [TableFlowable
                 \<lparr>table_data = map Str (df_columns df) # df_values df,
                  repeat_rows = 1,
                  table_style = header_style @ cmds\<rparr>])))(''chart.png'' := None)"
    have "tables_of ds = []"
      using load_images_tables[OF a(3)] by (simp add: title_block_def)
    moreover have "rendered (create_pdf w df title fs) =
       Some (ds @ [TableFlowable
                 \<lparr>table_data = map Str (df_columns df) # df_values df,
                  repeat_rows = 1,
                  table_style = header_style @ cmds\<rparr>])"
      unfolding assms rendered_def using a(4,5) by simp
    ultimately show ?thesis using that a(1,2) by blast
  qed
next
  case False
  then have tail: "pdf_tail w df (title_block title) fs = (Inr name, fs')"
    using assms by (auto simp: create_pdf_def)
  from tail show ?thesis
  proof (rule pdf_tail_Inr)
    fix tops cmds ds
    assume a: "top_amounts df = Inr tops" "pdf_row_styles df tops 1 (df_values df) = Inr cmds"
      "load_images fs (title_block title) = Inr ds"
      "name = ''sales_report.pdf''"
      "fs' = (fs(''sales_report.pdf'' \<mapsto>
              PdfFile (ds @ [TableFlowable
                 \<lparr>table_data = map Str (df_columns df) # df_values df,
                  repeat_rows = 1,
                  table_style = header_style @ cmds\<rparr>])))(''chart.png'' := None)"
    have "tables_of ds = []"
      using load_images_tables[OF a(3)] by (simp add: title_block_def)
    moreover have "rendered (create_pdf w df title fs) =
       Some (ds @ [TableFlowable
                 \<lparr>table_data = map Str (df_columns df) # df_values df,
                  repeat_rows = 1,
                  table_style = header_style @ cmds\<rparr>])"
      unfolding assms rendered_def using a(4,5) by simp
    ultimately show ?thesis using that a(1,2) by blast
  qed
qed

section \<open>Lemmas on the amount column\<close>


lemma row_value_amount: "row_value df row = Inr v \<Longrightarrow> v = row ! index_of (amount_column df) (df_columns df)"
  by (auto simp: row_value_def amount_column_def get_loc_def list_get_def split: sum.splits if_splits)

lemma pdf_row_styles_value:
  "pdf_row_styles df tops s rows = Inr cmds \<Longrightarrow> i < length rows \<Longrightarrow>
   row_value df (rows ! i) = Inr (rows ! i ! index_of (amount_column df) (df_columns df))"
proof (induction rows arbitrary: s cmds i)
  case Nil
  then show ?case by simp
next
  case (Cons row rows)
  then show ?case
    by (cases i) (auto split: sum.splits dest: row_value_amount)
qed



lemma top_amounts_columns: "top_amounts df = Inr tops \<Longrightarrow> df_columns df \<noteq> []"
  by (auto simp: top_amounts_def getitem_def split: if_splits)


section \<open>Facts about the example tables\<close>


lemma df5_fst: "fst (create_pdf True df5 ''Sales by Product'' Map.empty) = Inr ''sales_report.pdf''"
  by code_simp

lemma df5_tops: "top_amounts df5 = Inr [Num 10, Num 10, Num 10]"
  by code_simp

section \<open>Lemmas on the row backgrounds of the document\<close>

lemma pdf_background_of_row:
  assumes ok: "fst (create_pdf writable df title fs) = Inr name"
    and tops: "top_amounts df = Inr tops"
    and i: "i < length (df_values df)"
  shows "rendered_row_background (create_pdf writable df title fs) (Suc i) =
           Some (if amount_of_row df i \<in> set tops then HexColor ''#FFD700''
                 else if even (Suc i) then HexColor ''#DCE6F1'' else Whitesmoke)"
proof -
  from ok have "create_pdf writable df title fs = (Inr name, snd (create_pdf writable df title fs))"
    by (metis prod.collapse)
  then show ?thesis
  proof (rule create_pdf_Inr)
    fix tops' cmds ds
    assume a: "top_amounts df = Inr tops'"
      "pdf_row_styles df tops' 1 (df_values df) = Inr cmds"
      "tables_of ds = []"
      "rendered (create_pdf writable df title fs) =
         Some (ds @ [TableFlowable
                 \<lparr>table_data = map Str (df_columns df) # df_values df,
                  repeat_rows = 1,
                  table_style = header_style @ cmds\<rparr>])"
    from a(1) tops have [simp]: "tops' = tops" by simp
    have nc: "0 < length (df_columns df)"
      using top_amounts_columns[OF tops] by simp
    have rows: "cell_background (length (df_columns df)) (Suc (length (df_values df))) cmds 0
                  (Suc i) None =
                (case row_value df (df_values df ! i) of
                   Inr v \<Rightarrow> Some (bg_color_of tops' (Suc i) v) | Inl e \<Rightarrow> None)"
      using pdf_row_styles_background[OF a(2) nc, of "Suc (length (df_values df))" "Suc i" None] i
      by simp
    have v: "row_value df (df_values df ! i) = Inr (amount_of_row df i)"
      using pdf_row_styles_value[OF a(2) i] by (simp add: amount_of_row_def)
    have "rendered_row_background (create_pdf writable df title fs) (Suc i) =
            cell_background (length (map Str (df_columns df))) (Suc (length (df_values df)))
              (header_style @ cmds) 0 (Suc i) None"
      by (simp add: rendered_row_background_def rendered_table_def a(3,4) tables_of_append
          row_background_def)
    also have "\<dots> = Some (bg_color_of tops (Suc i) (amount_of_row df i))"
      using i v
      by (simp add: cell_background_append header_style_background rows)
    finally show ?thesis
      by (simp add: bg_color_of_def even_iff_mod_2_eq_zero)
  qed
qed

section \<open>Lemmas on the three largest values\<close>






section \<open>Lemmas on the gold rows\<close>











lemma object_amounts_raise:
  assumes "amount_column df \<in> set (df_columns df)"
    and "dtype_of df (amount_column df) = Object"
  shows "top_amounts df = Inl TypeError"
    and "create_excel_with_chart df = Inl TypeError"
  using assms
  by (auto simp: create_excel_with_chart_def top_amounts_def getitem_def nlargest_def
      amount_column_def split: if_splits)

section \<open>The shape of the query results\<close>

text \<open>Every table a query returns has its amount column last, provided \<^verbatim>\<open>sales\<close>
  itself has no column \<^verbatim>\<open>total_amount\<close>.\<close>

lemma result_columns_amount_last:
  assumes "result_columns sales_columns query_option = Some cols"
    and "df_columns df = cols"
    and "''total_amount'' \<notin> set sales_columns"
  shows "amount_last df"
  unfolding amount_last_def amount_column_def assms(2)
  using assms(1,3) by (auto simp: result_columns_def split: if_splits)

section \<open>More facts about the example tables\<close>





section \<open>Highlighting\<close>






text \<open>
  C3 (banding parity with TopN precedence). When the document renderer returns, the data
  row at position \<open>i + 1\<close> has the gold background if its amount is among the three
  largest, and otherwise the light blue \<^verbatim>\<open>#DCE6F1\<close> at an even position and
  \<^verbatim>\<open>colors.whitesmoke\<close> at an odd one. The five rows of a five-row table thus get, when
  not gold, whitesmoke at positions 1, 3, 5 and light blue at positions 2, 4.
\<close>

theorem pdf_banding:
  assumes ok: "fst (create_pdf writable df title fs) = Inr name"
    and tops: "top_amounts df = Inr tops"
    and i: "i < length (df_values df)"
  shows "rendered_row_background (create_pdf writable df title fs) (Suc i) =
           Some (if amount_of_row df i \<in> set tops then HexColor ''#FFD700''
                 else if even (Suc i) then HexColor ''#DCE6F1'' else Whitesmoke)"
  using ok tops i by (rule pdf_background_of_row)

theorem pdf_banding_witness:
  "fst (create_pdf True df5 ''Sales by Product'' Map.empty) = Inr ''sales_report.pdf'' \<and>
   top_amounts df5 = Inr [Num 10, Num 10, Num 10] \<and>
   rendered_row_background (create_pdf True df5 ''Sales by Product'' Map.empty) 1 = Some (HexColor ''#FFD700'') \<and>
   rendered_row_background (create_pdf True df5 ''Sales by Product'' Map.empty) 4 = Some (HexColor ''#DCE6F1'') \<and>
   rendered_row_background (create_pdf True df5 ''Sales by Product'' Map.empty) 5 = Some Whitesmoke"
proof -
  have l: "length (df_values df5) = 5" by (simp add: df5_def)
  have a0: "amount_of_row df5 0 = Num 10" and a3: "amount_of_row df5 3 = Num 5"
    and a4: "amount_of_row df5 4 = Num 1"
    by (simp_all add: amount_of_row_def amount_column_def df5_def)
  show ?thesis
    using pdf_banding[OF df5_fst df5_tops, of 0] pdf_banding[OF df5_fst df5_tops, of 3]
      pdf_banding[OF df5_fst df5_tops, of 4] df5_fst df5_tops
    by (simp add: l a0 a3 a4)
qed



section \<open>The report type\<close>

text \<open>
  For a selector that is none of the four report types, what reaches
  \<^verbatim>\<open>fetch_data\<close> is the \<open>NameError\<close> of the unbound name \<^verbatim>\<open>query\<close>, not a
  \<open>ConfigurationError\<close>.
\<close>

theorem unknown_option_counterexample:
  "query_for_fetch (base_condition ''2024-01-01'' ''2024-12-31'' [] []) ''Weekly Sales''
     = Inl (NameError ''query'') \<and>
   query_for_fetch (base_condition ''2024-01-01'' ''2024-12-31'' [] []) ''Weekly Sales''
     \<noteq> Inl ConfigurationError"
  by (simp add: query_for_fetch_def build_query_def)

text \<open>
  C5 (unknown report type), as the code has it. For every selector outside the four known
  values the chain of conditions binds no query, and line 179, which reads the name,
  fails with \<open>NameError\<close>.
\<close>

theorem unknown_option_name_error:
  assumes "query_option \<notin> set known_options"
  shows "build_query cond query_option = None \<and>
         query_for_fetch cond query_option = Inl (NameError ''query'')"
  using assms by (simp add: known_options_def query_for_fetch_def build_query_def)

theorem unknown_option_name_error_witness:
  "''Weekly Sales'' \<notin> set known_options \<and>
   build_query ''sale_date BETWEEN '' ''Weekly Sales'' = None \<and>
   query_for_fetch ''sale_date BETWEEN '' ''Weekly Sales'' = Inl (NameError ''query'')"
proof -
  have h: "''Weekly Sales'' \<notin> set known_options" by (simp add: known_options_def)
  show ?thesis using h unknown_option_name_error[OF h, of "''sale_date BETWEEN ''"] by simp
qed


section \<open>The chart of the document\<close>




section \<open>Tables without rows\<close>

text \<open>
  C7 (empty-table rendering). A query that matches no sale returns a table without rows
  whose columns have dtype \<^verbatim>\<open>object\<close>. \<^verbatim>\<open>nlargest\<close> refuses such a column, at line 80
  in the spreadsheet renderer and at line 56 in the document renderer: both raise
  \<open>TypeError\<close>, no workbook and no document is produced, and the document renderer
  leaves the chart image it saved at line 40 behind.
\<close>

theorem empty_result_raises:
  "wf_df df_empty \<and>
   create_excel_with_chart df_empty = Inl TypeError \<and>
   fst (create_pdf True df_empty ''Sales by Product'' Map.empty) = Inl TypeError \<and>
   snd (create_pdf True df_empty ''Sales by Product'' Map.empty) ''chart.png'' \<noteq> None"
  by code_simp

section \<open>The scratch file\<close>

text \<open>When \<open>create_pdf\<close> returns, \<^verbatim>\<open>chart.png\<close> is gone.\<close>

lemma create_pdf_returns_removes_chart:
  "fst (create_pdf writable df title fs) = Inr name \<Longrightarrow>
   snd (create_pdf writable df title fs) ''chart.png'' = None"
  by (auto simp: create_pdf_def pdf_tail_def split: sum.splits if_splits)

text \<open>
  C8 (scratch-file cleanup). The removal at lines 65 and 66 is reached only when
  \<^verbatim>\<open>doc.build\<close> returns. When writing the document fails, the exception leaves
  \<open>create_pdf\<close> with \<^verbatim>\<open>chart.png\<close> still on disk.
\<close>

theorem chart_file_left_behind:
  "fst (create_pdf False df5 ''Sales by Product'' Map.empty) = Inl OSError \<and>
   snd (create_pdf False df5 ''Sales by Product'' Map.empty) ''chart.png'' =
     Some (PngFile \<lparr>fig_plot = Some (Bar [Str ''A'', Str ''B'', Str ''C'', Str ''D'', Str ''E'']
                                         [Num 10, Num 10, Num 10, Num 5, Num 1]),
                     fig_ylabel = ''Amount'', fig_title = ''Sales by Product''\<rparr>)"
  by code_simp

section \<open>The chart of the spreadsheet\<close>

text \<open>
  C10 (the spreadsheet renderer requires a category-like column). For every table with an
  amount column and neither \<^verbatim>\<open>category\<close> nor \<^verbatim>\<open>product_name\<close> the spreadsheet
  renderer raises: the \<open>KeyError\<close> of \<^verbatim>\<open>get_loc('product_name')\<close> at line 88 when the
  amounts are numeric, and the error of \<^verbatim>\<open>nlargest\<close> before that when they are not.
\<close>

theorem excel_needs_category_column:
  assumes "''amount'' \<in> set (df_columns df) \<or> ''total_amount'' \<in> set (df_columns df)"
    and "''category'' \<notin> set (df_columns df)" and "''product_name'' \<notin> set (df_columns df)"
  shows "create_excel_with_chart df =
           Inl (case top_amounts df of Inl e \<Rightarrow> e | Inr tops \<Rightarrow> KeyError ''product_name'')"
  using assms
  by (auto simp: create_excel_with_chart_def iloc_last_def col_amount_def col_name_def get_loc_def
      split: sum.splits)

theorem excel_needs_category_column_witness:
  "(''amount'' \<in> set (df_columns df_daily) \<or> ''total_amount'' \<in> set (df_columns df_daily)) \<and>
   ''category'' \<notin> set (df_columns df_daily) \<and> ''product_name'' \<notin> set (df_columns df_daily) \<and>
   top_amounts df_daily = Inr [Num 30, Num 10] \<and>
   create_excel_with_chart df_daily = Inl (KeyError ''product_name'')"
proof -
  have h1: "''amount'' \<in> set (df_columns df_daily) \<or> ''total_amount'' \<in> set (df_columns df_daily)"
    and h2: "''category'' \<notin> set (df_columns df_daily)"
    and h3: "''product_name'' \<notin> set (df_columns df_daily)"
    by (simp_all add: df_daily_def)
  have t: "top_amounts df_daily = Inr [Num 30, Num 10]" by code_simp
  show ?thesis using excel_needs_category_column[OF h1 h2 h3] h1 h2 h3 t by simp
qed

end
